theory Spec2Isabelle
  imports Complex_Main
begin

section \<open>Data model of the home page (src/app/dashboard/page.tsx)\<close>

text \<open>
  JavaScript numbers are modelled exactly: scores, counters and point values as \<open>int\<close>,
  clock readings as \<open>nat\<close>, and the two fractional quantities (the CO2 estimate and the
  progress percentage) as \<open>rat\<close>, so that \<open>points * 0.1\<close> is the exact tenth and no binary
  rounding error enters. Strings are \<open>string\<close>. A category is the string the classifier
  returned: the cast \<open>aiResult.category as WasteCategory\<close> checks nothing at run time.
  Table lookups are lookups of the table's own keys.
\<close>

type_synonym category = string

text \<open>\<open>UserProfile\<close> with the fields \<open>defaultUserProfile\<close> lists; \<open>id\<close> is \<open>id_user\<close> here.\<close>

record UserProfile =
  id_user :: string
  displayName :: string
  email :: string
  avatar :: string
  score :: int
  co2Managed :: rat
  totalEwaste :: int
  totalPlastic :: int
  totalBiowaste :: int
  totalCardboard :: int
  totalPaper :: int
  totalGlass :: int
  totalMetal :: int
  totalOrganic :: int
  totalOther :: int
  totalPlasticOther :: int
  totalPlasticPete :: int
  totalPlasticHdpe :: int
  totalPlasticPp :: int
  totalPlasticPs :: int
  itemsClassified :: int
  challengesCompleted :: int
  badges :: "string list"

text \<open>\<open>ClassificationRecord\<close>, as \<open>handleClassify\<close> builds it.\<close>

record ClassificationRecord =
  id_rec :: string
  imageDataUri :: string
  category_rec :: category
  confidence_rec :: rat
  timestamp :: nat
  points_rec :: int

text \<open>
  The classifier's answer. \<open>category_ai = None\<close> is a missing (undefined or null)
  category; \<open>Some []\<close> is the empty string; both are falsy.
\<close>

record ClassifyWasteOutput =
  category_ai :: "category option"
  confidence_ai :: rat

text \<open>What the caller of \<open>handleClassify\<close> gets back on success.\<close>

record ClassifyResult =
  category_out :: category
  confidence_out :: rat

text \<open>
  What \<open>await classifyWaste(...)\<close> does: it throws (an \<open>Error\<close> with a message, or some
  other value), or it resolves to a result that may be null.
\<close>

datatype thrown = ErrorObject string | OtherValue

datatype ai_response = Throws thrown | Resolves "ClassifyWasteOutput option"

text \<open>The keys of \<open>UserProfile\<close> that hold a per-category quantity.\<close>

datatype quantityKey =
    TotalEwaste | TotalPlastic | TotalBiowaste | TotalCardboard | TotalPaper
  | TotalGlass | TotalMetal | TotalOrganic | TotalOther | TotalPlasticOther
  | TotalPlasticPete | TotalPlasticHdpe | TotalPlasticPp | TotalPlasticPs

text \<open>\<open>profile[key]\<close> read and written with a key computed at run time.\<close>

fun get_quantity :: "quantityKey \<Rightarrow> UserProfile \<Rightarrow> int" where
  "get_quantity TotalEwaste p = totalEwaste p"
| "get_quantity TotalPlastic p = totalPlastic p"
| "get_quantity TotalBiowaste p = totalBiowaste p"
| "get_quantity TotalCardboard p = totalCardboard p"
| "get_quantity TotalPaper p = totalPaper p"
| "get_quantity TotalGlass p = totalGlass p"
| "get_quantity TotalMetal p = totalMetal p"
| "get_quantity TotalOrganic p = totalOrganic p"
| "get_quantity TotalOther p = totalOther p"
| "get_quantity TotalPlasticOther p = totalPlasticOther p"
| "get_quantity TotalPlasticPete p = totalPlasticPete p"
| "get_quantity TotalPlasticHdpe p = totalPlasticHdpe p"
| "get_quantity TotalPlasticPp p = totalPlasticPp p"
| "get_quantity TotalPlasticPs p = totalPlasticPs p"

fun set_quantity :: "quantityKey \<Rightarrow> int \<Rightarrow> UserProfile \<Rightarrow> UserProfile" where
  "set_quantity TotalEwaste v p = p\<lparr>totalEwaste := v\<rparr>"
| "set_quantity TotalPlastic v p = p\<lparr>totalPlastic := v\<rparr>"
| "set_quantity TotalBiowaste v p = p\<lparr>totalBiowaste := v\<rparr>"
| "set_quantity TotalCardboard v p = p\<lparr>totalCardboard := v\<rparr>"
| "set_quantity TotalPaper v p = p\<lparr>totalPaper := v\<rparr>"
| "set_quantity TotalGlass v p = p\<lparr>totalGlass := v\<rparr>"
| "set_quantity TotalMetal v p = p\<lparr>totalMetal := v\<rparr>"
| "set_quantity TotalOrganic v p = p\<lparr>totalOrganic := v\<rparr>"
| "set_quantity TotalOther v p = p\<lparr>totalOther := v\<rparr>"
| "set_quantity TotalPlasticOther v p = p\<lparr>totalPlasticOther := v\<rparr>"
| "set_quantity TotalPlasticPete v p = p\<lparr>totalPlasticPete := v\<rparr>"
| "set_quantity TotalPlasticHdpe v p = p\<lparr>totalPlasticHdpe := v\<rparr>"
| "set_quantity TotalPlasticPp v p = p\<lparr>totalPlasticPp := v\<rparr>"
| "set_quantity TotalPlasticPs v p = p\<lparr>totalPlasticPs := v\<rparr>"

section \<open>Constants\<close>

definition MAX_HISTORY_DISPLAY_ITEMS :: nat where
  "MAX_HISTORY_DISPLAY_ITEMS = 5"

definition WASTE_POINTS :: "(category \<times> int) list" where
  "WASTE_POINTS =
     [(''ewaste'', 100), (''plastic'', 50), (''biowaste'', 60), (''cardboard'', 80),
      (''paper'', 70), (''glass'', 30), (''metal'', 40), (''organic'', 60),
      (''other'', 10), (''plasticOther'', 20), (''plasticPete'', 55),
      (''plasticHdpe'', 55), (''plasticPp'', 45), (''plasticPs'', 15),
      (''recyclable'', 50), (''compostable'', 60), (''non-recyclable'', 10)]"

definition CO2_SAVED_PER_POINT :: rat where
  "CO2_SAVED_PER_POINT = 1 / 10"

text \<open>\<open>targetForNext\<close> is a number or \<open>Infinity\<close>.\<close>

datatype target = Finite int | Infinity

text \<open>\<open>LevelInfo\<close> without its colour and image fields, which no computation reads.\<close>

record LevelInfo =
  name_level :: string
  minScore :: int
  targetForNext :: target

definition LEVELS :: "LevelInfo list" where
  "LEVELS =
     [\<lparr>name_level = ''Bronze'', minScore = 0, targetForNext = Finite 500\<rparr>,
      \<lparr>name_level = ''Silver'', minScore = 500, targetForNext = Finite 1500\<rparr>,
      \<lparr>name_level = ''Gold'', minScore = 1500, targetForNext = Finite 3000\<rparr>,
      \<lparr>name_level = ''Diamond'', minScore = 3000, targetForNext = Infinity\<rparr>]"

text \<open>
  An entry of \<open>verticalLogCategories\<close> without its image, hint and placeholder fields.
  \<open>points\<close> is written \<open>WASTE_POINTS.<id>\<close> in the source; the value is the table's.
\<close>

record LogCategory =
  id_cat :: category
  name_cat :: string
  points_cat :: int
  quantityKey_cat :: quantityKey

definition verticalLogCategories :: "LogCategory list" where
  "verticalLogCategories =
     [\<lparr>id_cat = ''cardboard'', name_cat = ''Cardboard'', points_cat = 80, quantityKey_cat = TotalCardboard\<rparr>,
      \<lparr>id_cat = ''paper'', name_cat = ''Paper'', points_cat = 70, quantityKey_cat = TotalPaper\<rparr>,
      \<lparr>id_cat = ''glass'', name_cat = ''Glass'', points_cat = 30, quantityKey_cat = TotalGlass\<rparr>,
      \<lparr>id_cat = ''plasticPete'', name_cat = ''Plastic - PETE'', points_cat = 55, quantityKey_cat = TotalPlasticPete\<rparr>,
      \<lparr>id_cat = ''plasticHdpe'', name_cat = ''Plastic - HDPE'', points_cat = 55, quantityKey_cat = TotalPlasticHdpe\<rparr>,
      \<lparr>id_cat = ''plasticPp'', name_cat = ''Plastic - PP'', points_cat = 45, quantityKey_cat = TotalPlasticPp\<rparr>,
      \<lparr>id_cat = ''plasticPs'', name_cat = ''Plastic - PS'', points_cat = 15, quantityKey_cat = TotalPlasticPs\<rparr>,
      \<lparr>id_cat = ''plasticOther'', name_cat = ''Plastic - Other'', points_cat = 20, quantityKey_cat = TotalPlasticOther\<rparr>,
      \<lparr>id_cat = ''ewaste'', name_cat = ''E-Waste'', points_cat = 100, quantityKey_cat = TotalEwaste\<rparr>,
      \<lparr>id_cat = ''biowaste'', name_cat = ''Bio-Waste'', points_cat = 60, quantityKey_cat = TotalBiowaste\<rparr>,
      \<lparr>id_cat = ''metal'', name_cat = ''Metal'', points_cat = 40, quantityKey_cat = TotalMetal\<rparr>,
      \<lparr>id_cat = ''other'', name_cat = ''Trash'', points_cat = 10, quantityKey_cat = TotalOther\<rparr>]"

definition defaultUserProfile :: UserProfile where
  "defaultUserProfile =
     \<lparr>id_user = ''localUser'', displayName = ''Guest'', email = '''',
      avatar = ''https://placehold.co/100x100.png?text=G'',
      score = 0, co2Managed = 0,
      totalEwaste = 0, totalPlastic = 0, totalBiowaste = 0, totalCardboard = 0,
      totalPaper = 0, totalGlass = 0, totalMetal = 0, totalOrganic = 0, totalOther = 0,
      totalPlasticOther = 0, totalPlasticPete = 0, totalPlasticHdpe = 0,
      totalPlasticPp = 0, totalPlasticPs = 0,
      itemsClassified = 0, challengesCompleted = 0, badges = []\<rparr>"

section \<open>Browser storage and page state\<close>

text \<open>
  The items of \<open>localStorage\<close> the page reads: three plain strings and the two JSON
  records under \<open>USER_DATA_KEY\<close> and \<open>HISTORY_STORAGE_KEY\<close>. \<open>None\<close> is an absent (or
  unreadable) item.
\<close>

record LocalStorage =
  isLoggedIn_item :: "string option"
  userEmail_item :: "string option"
  userName_item :: "string option"
  userData_item :: "UserProfile option"
  history_item :: "ClassificationRecord list option"

text \<open>
  Modelled from the spec: \<open>getFromLocalStorage\<close> and \<open>saveToLocalStorage\<close> live in
  \<open>@/lib/storage\<close>, which is not among the sources. The spec's \<open>load\<close> "returns the
  persisted profile or a default ... if absent/corrupt" and \<open>save\<close> "persists the full
  profile, overwriting prior state".
\<close>

definition getFromLocalStorage :: "'a option \<Rightarrow> 'a \<Rightarrow> 'a" where
  "getFromLocalStorage item dflt = (case item of None \<Rightarrow> dflt | Some v \<Rightarrow> v)"

text \<open>The \<open>useState\<close> cells of \<open>HomePage\<close> that the two handlers touch, and the storage.\<close>

record AppState =
  userData :: UserProfile
  recentClassifications :: "ClassificationRecord list"
  isClassifying :: bool
  classificationError :: "string option"
  isUploadModalOpen :: bool
  isLoggedIn :: bool
  storage :: LocalStorage

section \<open>Scoring a classification\<close>

text \<open>\<open>Date.now().toString()\<close>: the decimal digits of the clock reading.\<close>

fun toString_nat :: "nat \<Rightarrow> string" where
  "toString_nat n =
     (if n < 10 then [char_of (48 + n)]
      else toString_nat (n div 10) @ [char_of (48 + n mod 10)])"

declare toString_nat.simps [simp del]

text \<open>
  \<open>parseFloat(x.toFixed(1))\<close>: the nearest multiple of a tenth, a tie going away from
  zero (\<open>toFixed\<close> rounds the absolute value, taking the larger candidate on a tie).
\<close>

definition toFixed1 :: "rat \<Rightarrow> rat" where
  "toFixed1 x =
     (if x < 0 then - (of_int \<lfloor>(- x) * 10 + 1 / 2\<rfloor> / 10)
      else of_int \<lfloor>x * 10 + 1 / 2\<rfloor> / 10)"

text \<open>\<open>WASTE_POINTS.other\<close>.\<close>

definition WASTE_POINTS_other :: int where
  "WASTE_POINTS_other = (case map_of WASTE_POINTS ''other'' of Some v \<Rightarrow> v | None \<Rightarrow> 0)"

text \<open>
  \<open>WASTE_POINTS[category] || WASTE_POINTS.other\<close>: the right operand is taken when the
  lookup is undefined or zero.
\<close>

definition pointsEarned :: "category \<Rightarrow> int" where
  "pointsEarned c =
     (case map_of WASTE_POINTS c of
        None \<Rightarrow> WASTE_POINTS_other
      | Some v \<Rightarrow> if v = 0 then WASTE_POINTS_other else v)"

text \<open>
  The updater passed to \<open>setUserData\<close>: a copy of the previous profile with score, CO2
  and item count advanced, then the quantity under the category's \<open>quantityKey\<close>
  incremented when \<open>verticalLogCategories\<close> has an entry for the category.
  \<open>Number(x || 0)\<close> of a number \<open>x\<close> is \<open>x\<close>.
\<close>

definition applyClassification :: "UserProfile \<Rightarrow> category \<Rightarrow> UserProfile" where
  "applyClassification prevData c =
     (let pts = pointsEarned c;
          newUserDataState = prevData
            \<lparr>score := score prevData + pts,
             co2Managed := toFixed1 (co2Managed prevData + of_int pts * CO2_SAVED_PER_POINT),
             itemsClassified := itemsClassified prevData + 1\<rparr>
      in case find (\<lambda>cat. id_cat cat = c) verticalLogCategories of
           Some categoryDetails \<Rightarrow>
             (let keyToUpdate = quantityKey_cat categoryDetails;
                  currentSpecificQuantity = get_quantity keyToUpdate newUserDataState
              in set_quantity keyToUpdate (currentSpecificQuantity + 1) newUserDataState)
         | None \<Rightarrow> newUserDataState)"

section \<open>handleClassify\<close>

text \<open>
  The three ways \<open>handleClassify\<close> returns null, named as the spec names them; the source
  tells them apart by the toast it raises ("Login Required", "Classification Failed",
  "Classification Error" with the message).
\<close>

datatype failure = AuthRequired | InvalidResult | ClassificationFailed string

text \<open>
  \<open>handleClassify(imageDataUri, categoryUserInitiatedWith)\<close> on the page state, given the
  classifier's response and the two readings of \<open>Date.now()\<close> (for the record's id and
  for its timestamp). The updater of \<open>setUserData\<close> is applied to the current profile.
  \<open>finally\<close> clears \<open>isClassifying\<close> on every path that entered the \<open>try\<close>.
\<close>

definition handleClassify ::
  "AppState \<Rightarrow> string \<Rightarrow> category option \<Rightarrow> ai_response \<Rightarrow> nat \<Rightarrow> nat
     \<Rightarrow> AppState \<times> (failure + ClassifyResult)" where
  "handleClassify st photo categoryUserInitiatedWith response now_id now_ts =
     (if \<not> isLoggedIn st then (st, Inl AuthRequired)
      else
        let st1 = st\<lparr>isClassifying := True, classificationError := None\<rparr> in
        case response of
          Throws e \<Rightarrow>
            (let errorMessage =
                   (case e of ErrorObject m \<Rightarrow> m
                    | OtherValue \<Rightarrow> ''An unknown error occurred during classification.'')
             in (st1\<lparr>classificationError := Some errorMessage, isClassifying := False\<rparr>,
                 Inl (ClassificationFailed errorMessage)))
        | Resolves aiResult \<Rightarrow>
            (case (case aiResult of None \<Rightarrow> None
                   | Some r \<Rightarrow>
                       (case category_ai r of None \<Rightarrow> None
                        | Some c \<Rightarrow> if c = [] then None else Some (c, confidence_ai r))) of
               None \<Rightarrow>
                 (st1\<lparr>classificationError :=
                         Some ''Could not classify the image. The AI returned no result or an invalid category.'',
                       isClassifying := False\<rparr>,
                  Inl InvalidResult)
             | Some (aiDeterminedSpecificCategory, classificationConfidence) \<Rightarrow>
                 (let newRecord =
                        \<lparr>id_rec = toString_nat now_id, imageDataUri = photo,
                         category_rec = aiDeterminedSpecificCategory,
                         confidence_rec = classificationConfidence,
                         timestamp = now_ts,
                         points_rec = pointsEarned aiDeterminedSpecificCategory\<rparr>;
                      currentHistory = getFromLocalStorage (history_item (storage st1)) [];
                      updatedHistory = take 50 (newRecord # currentHistory);
                      newUserDataState =
                        applyClassification (userData st1) aiDeterminedSpecificCategory
                  in (st1\<lparr>storage := (storage st1)
                              \<lparr>history_item := Some updatedHistory,
                               userData_item := Some newUserDataState\<rparr>,
                            recentClassifications := take MAX_HISTORY_DISPLAY_ITEMS updatedHistory,
                            userData := newUserDataState,
                            isUploadModalOpen := False,
                            isClassifying := False\<rparr>,
                      Inr \<lparr>category_out = aiDeterminedSpecificCategory,
                           confidence_out = classificationConfidence\<rparr>))))"

section \<open>checkLoginStatus\<close>






section \<open>Levels and progress\<close>

text \<open>
  The loop of \<open>getCurrentLevel\<close>, \<open>for (i = LEVELS.length - 1; i >= 0; i--)\<close>:
  \<open>scanLevels s n\<close> has the indices below \<open>n\<close> still to visit, highest first, and is
  \<open>None\<close> when the loop ends without returning.
\<close>

fun scanLevels :: "int \<Rightarrow> nat \<Rightarrow> LevelInfo option" where
  "scanLevels s 0 = None"
| "scanLevels s (Suc i) =
     (if s \<ge> minScore (LEVELS ! i) then Some (LEVELS ! i) else scanLevels s i)"

definition getCurrentLevel :: "int \<Rightarrow> LevelInfo" where
  "getCurrentLevel s =
     (case scanLevels s (length LEVELS) of Some l \<Rightarrow> l | None \<Rightarrow> LEVELS ! 0)"

text \<open>
  The block that computes \<open>scorePercentage\<close> from \<open>userData.score\<close> and \<open>currentLevel\<close>.
\<close>

definition scorePercentage :: "int \<Rightarrow> LevelInfo \<Rightarrow> rat" where
  "scorePercentage s currentLevel =
     (case targetForNext currentLevel of
        Infinity \<Rightarrow> 100
      | Finite t \<Rightarrow>
          (let pointsEarnedInLevel = max 0 (s - minScore currentLevel);
               pointsToNextLevelRange = t - minScore currentLevel
           in if pointsToNextLevelRange > 0
              then min (of_int pointsEarnedInLevel / of_int pointsToNextLevelRange * 100) 100
              else if s \<ge> minScore currentLevel then 100 else 0))"

text \<open>The percentage the page shows for a score: the level is the score's own level.\<close>

definition currentScorePercentage :: "int \<Rightarrow> rat" where
  "currentScorePercentage s = scorePercentage s (getCurrentLevel s)"

section \<open>Runs of classifications\<close>





text \<open>The history list under \<open>HISTORY_STORAGE_KEY\<close>, empty when the item is absent.\<close>

definition persistedHistory :: "AppState \<Rightarrow> ClassificationRecord list" where
  "persistedHistory st = getFromLocalStorage (history_item (storage st)) []"


text \<open>A logged-in page with a fresh profile and empty history, for concrete runs.\<close>

definition exampleState :: AppState where
  "exampleState =
     \<lparr>userData = defaultUserProfile\<lparr>id_user := ''ann@example.org'', displayName := ''ann'',
                                    email := ''ann@example.org''\<rparr>,
      recentClassifications = [],
      isClassifying = False,
      classificationError = None,
      isUploadModalOpen = True,
      isLoggedIn = True,
      storage = \<lparr>isLoggedIn_item = Some ''true'', userEmail_item = Some ''ann@example.org'',
                 userName_item = None,
                 userData_item = Some (defaultUserProfile\<lparr>id_user := ''ann@example.org'',
                                          displayName := ''ann'', email := ''ann@example.org''\<rparr>),
                 history_item = None\<rparr>\<rparr>"

section \<open>Facts about the tables and the profile update\<close>

lemma get_set_quantity:
  "get_quantity k (set_quantity k' v p) = (if k = k' then v else get_quantity k p)"
  by (cases k; cases k'; simp)



lemma WASTE_POINTS_entries: "\<forall>(k, v) \<in> set WASTE_POINTS. 10 \<le> v"
  by (simp add: WASTE_POINTS_def)

lemma pointsEarned_known: "map_of WASTE_POINTS c = Some v \<Longrightarrow> pointsEarned c = v"
  using WASTE_POINTS_entries by (auto simp: pointsEarned_def dest!: map_of_SomeD)





section \<open>The paths of handleClassify\<close>

lemma handleClassify_logged_out:
  "\<not> isLoggedIn st \<Longrightarrow>
     handleClassify st photo hint response now_id now_ts = (st, Inl AuthRequired)"
  by (simp add: handleClassify_def)

lemma handleClassify_throws:
  "isLoggedIn st \<Longrightarrow>
     handleClassify st photo hint (Throws e) now_id now_ts =
       (st\<lparr>isClassifying := False,
           classificationError := Some (case e of ErrorObject m \<Rightarrow> m
              | OtherValue \<Rightarrow> ''An unknown error occurred during classification.'')\<rparr>,
        Inl (ClassificationFailed (case e of ErrorObject m \<Rightarrow> m
              | OtherValue \<Rightarrow> ''An unknown error occurred during classification.'')))"
  by (simp add: handleClassify_def Let_def)

lemma handleClassify_invalid:
  assumes "isLoggedIn st"
    and "aiResult = None \<or> (\<exists>r. aiResult = Some r \<and> (category_ai r = None \<or> category_ai r = Some []))"
  shows "handleClassify st photo hint (Resolves aiResult) now_id now_ts =
       (st\<lparr>isClassifying := False,
           classificationError :=
             Some ''Could not classify the image. The AI returned no result or an invalid category.''\<rparr>,
        Inl InvalidResult)"
  using assms by (auto simp add: handleClassify_def Let_def)

lemma handleClassify_success:
  assumes "isLoggedIn st" and "c \<noteq> []"
  shows "handleClassify st photo hint
           (Resolves (Some \<lparr>category_ai = Some c, confidence_ai = cf\<rparr>)) now_id now_ts =
         (st\<lparr>isClassifying := False, classificationError := None,
             storage := (storage st)
               \<lparr>history_item := Some (take 50
                  (\<lparr>id_rec = toString_nat now_id, imageDataUri = photo, category_rec = c,
                    confidence_rec = cf, timestamp = now_ts, points_rec = pointsEarned c\<rparr>
                   # getFromLocalStorage (history_item (storage st)) [])),
                userData_item := Some (applyClassification (userData st) c)\<rparr>,
             recentClassifications := take MAX_HISTORY_DISPLAY_ITEMS (take 50
                  (\<lparr>id_rec = toString_nat now_id, imageDataUri = photo, category_rec = c,
                    confidence_rec = cf, timestamp = now_ts, points_rec = pointsEarned c\<rparr>
                   # getFromLocalStorage (history_item (storage st)) [])),
             userData := applyClassification (userData st) c,
             isUploadModalOpen := False\<rparr>,
          Inr \<lparr>category_out = c, confidence_out = cf\<rparr>)"
  using assms by (simp add: handleClassify_def Let_def)

text \<open>The four ways a call can go.\<close>

lemma handleClassify_cases:
  obtains (logged_out) "\<not> isLoggedIn (st::AppState)"
  | (throws) e where "isLoggedIn st" "response = Throws e"
  | (invalid) aiResult where "isLoggedIn st" "response = Resolves aiResult"
      "aiResult = None \<or> (\<exists>r. aiResult = Some r \<and> (category_ai r = None \<or> category_ai r = Some []))"
  | (success) c cf where "isLoggedIn st" "c \<noteq> []"
      "response = Resolves (Some \<lparr>category_ai = Some c, confidence_ai = cf\<rparr>)"
proof (cases "isLoggedIn st")
  case False
  then show ?thesis by (rule logged_out)
next
  case li: True
  show ?thesis
  proof (cases response)
    case (Throws e)
    with li show ?thesis by (rule throws)
  next
    case (Resolves aiResult)
    show ?thesis
    proof (cases aiResult)
      case None
      with li Resolves show ?thesis by (intro invalid) auto
    next
      case (Some r)
      show ?thesis
      proof (cases "category_ai r")
        case None
        with li Resolves Some show ?thesis by (intro invalid) auto
      next
        case sc: (Some c)
        show ?thesis
        proof (cases "c = []")
          case True
          with li Resolves Some sc show ?thesis by (intro invalid) auto
        next
          case False
          have "r = \<lparr>category_ai = Some c, confidence_ai = confidence_ai r\<rparr>"
            using sc by (cases r) simp
          with li Resolves Some False show ?thesis by (intro success) auto
        qed
      qed
    qed
  qed
qed

lemma handleClassify_failure_unchanged:
  assumes "snd (handleClassify st photo hint response now_id now_ts) = Inl f"
  shows "userData (fst (handleClassify st photo hint response now_id now_ts)) = userData st
       \<and> storage (fst (handleClassify st photo hint response now_id now_ts)) = storage st
       \<and> recentClassifications (fst (handleClassify st photo hint response now_id now_ts))
           = recentClassifications st"
proof (cases rule: handleClassify_cases[where st=st and response=response])
  case logged_out
  then show ?thesis by (simp add: handleClassify_logged_out)
next
  case (throws e)
  then show ?thesis by (simp add: handleClassify_throws)
next
  case (invalid aiResult)
  then show ?thesis by (simp add: handleClassify_invalid)
next
  case (success c cf)
  with assms show ?thesis by (simp add: handleClassify_success)
qed


section \<open>Rounding to one decimal\<close>



section \<open>C1: the profile after a classification of a category with a point value\<close>






section \<open>C3: categories without a quantity key\<close>



section \<open>C10: a success adds at least ten points\<close>



section \<open>C2: a category outside the enumeration\<close>




section \<open>C5: failures leave profile and history alone\<close>

text \<open>
  C5: a call made logged out fails with AuthRequired; a logged-in call answered without
  a usable category fails with InvalidResult; a logged-in call whose classifier throws
  fails with ClassificationFailed and a message; and whenever a call fails, the profile,
  the storage (stored profile and stored history) and the displayed history are exactly
  what they were.
\<close>

theorem C5_failures_change_nothing:
  "(\<not> isLoggedIn st \<longrightarrow>
      snd (handleClassify st photo hint response now_id now_ts) = Inl AuthRequired)
   \<and> (isLoggedIn st \<and> (aiResult = None
          \<or> (\<exists>r. aiResult = Some r \<and> (category_ai r = None \<or> category_ai r = Some []))) \<longrightarrow>
      snd (handleClassify st photo hint (Resolves aiResult) now_id now_ts) = Inl InvalidResult)
   \<and> (isLoggedIn st \<longrightarrow>
      (\<exists>m. snd (handleClassify st photo hint (Throws e) now_id now_ts)
              = Inl (ClassificationFailed m)))
   \<and> (\<forall>f. snd (handleClassify st photo hint response now_id now_ts) = Inl f \<longrightarrow>
        userData (fst (handleClassify st photo hint response now_id now_ts)) = userData st
      \<and> storage (fst (handleClassify st photo hint response now_id now_ts)) = storage st
      \<and> recentClassifications (fst (handleClassify st photo hint response now_id now_ts))
          = recentClassifications st)"
proof (intro conjI impI allI)
  assume "\<not> isLoggedIn st"
  then show "snd (handleClassify st photo hint response now_id now_ts) = Inl AuthRequired"
    by (simp add: handleClassify_logged_out)
next
  assume "isLoggedIn st \<and> (aiResult = None
          \<or> (\<exists>r. aiResult = Some r \<and> (category_ai r = None \<or> category_ai r = Some [])))"
  then show "snd (handleClassify st photo hint (Resolves aiResult) now_id now_ts) = Inl InvalidResult"
    by (simp add: handleClassify_invalid)
next
  assume "isLoggedIn st"
  then show "\<exists>m. snd (handleClassify st photo hint (Throws e) now_id now_ts)
              = Inl (ClassificationFailed m)"
    by (simp add: handleClassify_throws)
next
  fix f
  assume f: "snd (handleClassify st photo hint response now_id now_ts) = Inl f"
  from handleClassify_failure_unchanged[OF f]
  show "userData (fst (handleClassify st photo hint response now_id now_ts)) = userData st"
    and "storage (fst (handleClassify st photo hint response now_id now_ts)) = storage st"
    and "recentClassifications (fst (handleClassify st photo hint response now_id now_ts))
          = recentClassifications st"
    by simp_all
qed

text \<open>One call of each failing kind.\<close>

theorem C5_failures_change_nothing_witness:
  "\<not> isLoggedIn (exampleState\<lparr>isLoggedIn := False\<rparr>)
   \<and> snd (handleClassify (exampleState\<lparr>isLoggedIn := False\<rparr>) ''img'' None
            (Resolves (Some \<lparr>category_ai = Some ''glass'', confidence_ai = 1\<rparr>)) 1 2)
       = Inl AuthRequired
   \<and> userData (fst (handleClassify (exampleState\<lparr>isLoggedIn := False\<rparr>) ''img'' None
            (Resolves (Some \<lparr>category_ai = Some ''glass'', confidence_ai = 1\<rparr>)) 1 2))
       = userData exampleState
   \<and> isLoggedIn exampleState
   \<and> snd (handleClassify exampleState ''img'' None (Resolves None) 1 2) = Inl InvalidResult
   \<and> storage (fst (handleClassify exampleState ''img'' None (Resolves None) 1 2))
       = storage exampleState
   \<and> snd (handleClassify exampleState ''img'' None (Throws (ErrorObject ''timeout'')) 1 2)
       = Inl (ClassificationFailed ''timeout'')
   \<and> userData (fst (handleClassify exampleState ''img'' None (Throws (ErrorObject ''timeout'')) 1 2))
       = userData exampleState"
proof -
  have li: "isLoggedIn exampleState" by (simp add: exampleState_def)
  have t: "snd (handleClassify exampleState ''img'' None (Throws (ErrorObject ''timeout'')) 1 2)
       = Inl (ClassificationFailed ''timeout'')"
    by (simp add: handleClassify_throws[OF li])
  from C5_failures_change_nothing[of "exampleState\<lparr>isLoggedIn := False\<rparr>" "''img''" None
      "Resolves (Some \<lparr>category_ai = Some ''glass'', confidence_ai = 1\<rparr>)" 1 2 None OtherValue]
  have a: "snd (handleClassify (exampleState\<lparr>isLoggedIn := False\<rparr>) ''img'' None
            (Resolves (Some \<lparr>category_ai = Some ''glass'', confidence_ai = 1\<rparr>)) 1 2)
       = Inl AuthRequired
     \<and> userData (fst (handleClassify (exampleState\<lparr>isLoggedIn := False\<rparr>) ''img'' None
            (Resolves (Some \<lparr>category_ai = Some ''glass'', confidence_ai = 1\<rparr>)) 1 2))
       = userData exampleState"
    by simp
  from C5_failures_change_nothing[of exampleState "''img''" None "Resolves None" 1 2 None OtherValue] li
  have b: "snd (handleClassify exampleState ''img'' None (Resolves None) 1 2) = Inl InvalidResult
     \<and> storage (fst (handleClassify exampleState ''img'' None (Resolves None) 1 2))
       = storage exampleState"
    by simp
  from C5_failures_change_nothing[of exampleState "''img''" None
      "Throws (ErrorObject ''timeout'')" 1 2 None "ErrorObject ''timeout''"] li t
  have c: "userData (fst (handleClassify exampleState ''img'' None (Throws (ErrorObject ''timeout'')) 1 2))
       = userData exampleState"
    by simp
  from a b c t li show ?thesis by simp
qed

section \<open>C9: the category the upload was started from\<close>

text \<open>
  C9: two calls of \<open>handleClassify\<close> that differ only in \<open>categoryUserInitiatedWith\<close> give
  the same state (history, profile, storage) and the same result; on success the record
  put first in the history carries the classifier's category and the points earned for
  it, and the profile is the old one updated for that category.
\<close>

theorem C9_hint_is_ignored:
  "handleClassify st photo hint1 response now_id now_ts
     = handleClassify st photo hint2 response now_id now_ts
   \<and> (isLoggedIn st \<and> c \<noteq> [] \<longrightarrow>
        (let st' = fst (handleClassify st photo hint1
                     (Resolves (Some \<lparr>category_ai = Some c, confidence_ai = cf\<rparr>)) now_id now_ts)
         in category_rec (hd (persistedHistory st')) = c
          \<and> points_rec (hd (persistedHistory st')) = pointsEarned c
          \<and> userData st' = applyClassification (userData st) c))"
proof (intro conjI impI)
  show "handleClassify st photo hint1 response now_id now_ts
     = handleClassify st photo hint2 response now_id now_ts"
    by (simp add: handleClassify_def)
next
  assume "isLoggedIn st \<and> c \<noteq> []"
  then have li: "isLoggedIn st" and ne: "c \<noteq> []" by simp_all
  show "let st' = fst (handleClassify st photo hint1
                     (Resolves (Some \<lparr>category_ai = Some c, confidence_ai = cf\<rparr>)) now_id now_ts)
         in category_rec (hd (persistedHistory st')) = c
          \<and> points_rec (hd (persistedHistory st')) = pointsEarned c
          \<and> userData st' = applyClassification (userData st) c"
    unfolding Let_def handleClassify_success[OF li ne]
    by (simp add: persistedHistory_def getFromLocalStorage_def)
qed

text \<open>Started from \<open>paper\<close> or from \<open>general\<close>, a \<open>glass\<close> answer is recorded as glass, 30 points.\<close>

theorem C9_hint_is_ignored_witness:
  "handleClassify exampleState ''img'' (Some ''paper'')
       (Resolves (Some \<lparr>category_ai = Some ''glass'', confidence_ai = 1\<rparr>)) 1 2
     = handleClassify exampleState ''img'' (Some ''general'')
       (Resolves (Some \<lparr>category_ai = Some ''glass'', confidence_ai = 1\<rparr>)) 1 2
   \<and> isLoggedIn exampleState \<and> ''glass'' \<noteq> []
   \<and> category_rec (hd (persistedHistory (fst (handleClassify exampleState ''img'' (Some ''paper'')
       (Resolves (Some \<lparr>category_ai = Some ''glass'', confidence_ai = 1\<rparr>)) 1 2)))) = ''glass''
   \<and> points_rec (hd (persistedHistory (fst (handleClassify exampleState ''img'' (Some ''paper'')
       (Resolves (Some \<lparr>category_ai = Some ''glass'', confidence_ai = 1\<rparr>)) 1 2)))) = 30"
proof -
  have li: "isLoggedIn exampleState" by (simp add: exampleState_def)
  have pe: "pointsEarned ''glass'' = 30"
    by (rule pointsEarned_known) (simp add: WASTE_POINTS_def)
  note th = C9_hint_is_ignored[of exampleState "''img''" "Some ''paper''"
      "Resolves (Some \<lparr>category_ai = Some ''glass'', confidence_ai = 1\<rparr>)" 1 2
      "Some ''general''" "''glass''" 1]
  have e: "handleClassify exampleState ''img'' (Some ''paper'')
       (Resolves (Some \<lparr>category_ai = Some ''glass'', confidence_ai = 1\<rparr>)) 1 2
     = handleClassify exampleState ''img'' (Some ''general'')
       (Resolves (Some \<lparr>category_ai = Some ''glass'', confidence_ai = 1\<rparr>)) 1 2"
    using th by (rule conjunct1)
  have r: "category_rec (hd (persistedHistory (fst (handleClassify exampleState ''img'' (Some ''paper'')
       (Resolves (Some \<lparr>category_ai = Some ''glass'', confidence_ai = 1\<rparr>)) 1 2)))) = ''glass''
     \<and> points_rec (hd (persistedHistory (fst (handleClassify exampleState ''img'' (Some ''paper'')
       (Resolves (Some \<lparr>category_ai = Some ''glass'', confidence_ai = 1\<rparr>)) 1 2)))) = 30"
    using th[THEN conjunct2] li pe by (simp add: Let_def)
  show ?thesis
    apply (intro conjI)
        apply (rule e)
       apply (rule li)
      apply simp
     apply (rule r[THEN conjunct1])
    apply (rule r[THEN conjunct2])
    done
qed

section \<open>C6: the bounded history\<close>








section \<open>C7: the level of a score\<close>

text \<open>The loop over the four levels, written out.\<close>

lemma getCurrentLevel_eq:
  "getCurrentLevel s =
     (if 3000 \<le> s then \<lparr>name_level = ''Diamond'', minScore = 3000, targetForNext = Infinity\<rparr>
      else if 1500 \<le> s then \<lparr>name_level = ''Gold'', minScore = 1500, targetForNext = Finite 3000\<rparr>
      else if 500 \<le> s then \<lparr>name_level = ''Silver'', minScore = 500, targetForNext = Finite 1500\<rparr>
      else \<lparr>name_level = ''Bronze'', minScore = 0, targetForNext = Finite 500\<rparr>)"
proof -
  have n: "length LEVELS = Suc (Suc (Suc (Suc 0)))" by (simp add: LEVELS_def)
  have m: "LEVELS ! 0 = \<lparr>name_level = ''Bronze'', minScore = 0, targetForNext = Finite 500\<rparr>"
    "LEVELS ! Suc 0 = \<lparr>name_level = ''Silver'', minScore = 500, targetForNext = Finite 1500\<rparr>"
    "LEVELS ! Suc (Suc 0) = \<lparr>name_level = ''Gold'', minScore = 1500, targetForNext = Finite 3000\<rparr>"
    "LEVELS ! Suc (Suc (Suc 0)) = \<lparr>name_level = ''Diamond'', minScore = 3000, targetForNext = Infinity\<rparr>"
    by (simp_all add: LEVELS_def)
  show ?thesis
    unfolding getCurrentLevel_def n by (simp add: m)
qed

text \<open>
  C7: the level of a score is a tier of the table (Bronze 0, Silver 500, Gold 1500,
  Diamond 3000); for a score of at least 0 its \<open>minScore\<close> does not exceed the score and
  no tier with a \<open>minScore\<close> within the score has a higher one; for a negative score it
  is the first tier, Bronze; and the level is monotone in the score, both by
  \<open>minScore\<close> and by position in the table.
\<close>

theorem C7_level_is_highest_reached:
  "getCurrentLevel s \<in> set LEVELS
   \<and> map (\<lambda>l. (name_level l, minScore l)) LEVELS
       = [(''Bronze'', 0), (''Silver'', 500), (''Gold'', 1500), (''Diamond'', 3000)]
   \<and> (0 \<le> s \<longrightarrow> minScore (getCurrentLevel s) \<le> s
         \<and> (\<forall>l \<in> set LEVELS. minScore l \<le> s \<longrightarrow> minScore l \<le> minScore (getCurrentLevel s)))
   \<and> (s < 0 \<longrightarrow> getCurrentLevel s = LEVELS ! 0 \<and> name_level (getCurrentLevel s) = ''Bronze'')
   \<and> (a \<le> b \<longrightarrow>
        minScore (getCurrentLevel a) \<le> minScore (getCurrentLevel b)
        \<and> (\<exists>i j. i \<le> j \<and> j < length LEVELS
               \<and> getCurrentLevel a = LEVELS ! i \<and> getCurrentLevel b = LEVELS ! j))"
proof (intro conjI impI)
  show "getCurrentLevel s \<in> set LEVELS"
    unfolding getCurrentLevel_eq by (simp add: LEVELS_def)
  show "map (\<lambda>l. (name_level l, minScore l)) LEVELS
       = [(''Bronze'', 0), (''Silver'', 500), (''Gold'', 1500), (''Diamond'', 3000)]"
    by (simp add: LEVELS_def)
next
  assume "0 \<le> s"
  then show "minScore (getCurrentLevel s) \<le> s"
    unfolding getCurrentLevel_eq by simp
  show "\<forall>l \<in> set LEVELS. minScore l \<le> s \<longrightarrow> minScore l \<le> minScore (getCurrentLevel s)"
    unfolding getCurrentLevel_eq by (simp add: LEVELS_def)
next
  assume "s < 0"
  then show "getCurrentLevel s = LEVELS ! 0"
    unfolding getCurrentLevel_eq by (simp add: LEVELS_def)
  from \<open>s < 0\<close> show "name_level (getCurrentLevel s) = ''Bronze''"
    unfolding getCurrentLevel_eq by simp
next
  assume ab: "a \<le> b"
  then show "minScore (getCurrentLevel a) \<le> minScore (getCurrentLevel b)"
    unfolding getCurrentLevel_eq by simp
  have len: "length LEVELS = 4" by (simp add: LEVELS_def)
  define idx :: "int \<Rightarrow> nat" where
    "idx = (\<lambda>x. if 3000 \<le> x then 3 else if 1500 \<le> x then 2 else if 500 \<le> x then 1 else 0)"
  have g: "getCurrentLevel x = LEVELS ! idx x" for x
    unfolding getCurrentLevel_eq idx_def by (simp add: LEVELS_def)
  have "idx a \<le> idx b" using ab unfolding idx_def by simp
  moreover have "idx b < length LEVELS" unfolding len idx_def by simp
  ultimately show "\<exists>i j. i \<le> j \<and> j < length LEVELS
               \<and> getCurrentLevel a = LEVELS ! i \<and> getCurrentLevel b = LEVELS ! j"
    using g by blast
qed

text \<open>The spec's step from 480 (Bronze) to 510 (Silver), and a negative score.\<close>

theorem C7_level_is_highest_reached_witness:
  "(0::int) \<le> 510 \<and> (480::int) \<le> 510 \<and> (-5::int) < 0
   \<and> name_level (getCurrentLevel 480) = ''Bronze''
   \<and> name_level (getCurrentLevel 510) = ''Silver''
   \<and> name_level (getCurrentLevel (-5)) = ''Bronze''
   \<and> minScore (getCurrentLevel 480) \<le> minScore (getCurrentLevel 510)
   \<and> minScore (getCurrentLevel 510) \<le> 510"
proof -
  have v: "name_level (getCurrentLevel 480) = ''Bronze''"
    "name_level (getCurrentLevel 510) = ''Silver''"
    by (simp_all add: getCurrentLevel_eq)
  from C7_level_is_highest_reached[of 510 480 510] C7_level_is_highest_reached[of "-5" 0 0] v
  show ?thesis by (simp add: LEVELS_def)
qed

section \<open>C8: progress towards the next level\<close>

text \<open>
  C8: the percentage shown for a score (computed with the score's own level) lies
  between 0 and 100, and is 100 when that level's target is unbounded, which is the
  case from 3000 points on. For any level at all the computed percentage lies between
  0 and 100; it is 100 when the target is unbounded; it is 100 when the range from
  \<open>minScore\<close> to the target is zero or negative and the score has reached \<open>minScore\<close>;
  and with a positive range it is the clamped quotient of the spec.
\<close>

theorem C8_progress_is_clamped:
  "0 \<le> currentScorePercentage s \<and> currentScorePercentage s \<le> 100
   \<and> (targetForNext (getCurrentLevel s) = Infinity \<longrightarrow> currentScorePercentage s = 100)
   \<and> (3000 \<le> s \<longrightarrow> currentScorePercentage s = 100)
   \<and> 0 \<le> scorePercentage s l \<and> scorePercentage s l \<le> 100
   \<and> (targetForNext l = Infinity \<longrightarrow> scorePercentage s l = 100)
   \<and> (\<forall>t. targetForNext l = Finite t \<and> t - minScore l \<le> 0 \<and> minScore l \<le> s
          \<longrightarrow> scorePercentage s l = 100)
   \<and> (\<forall>t. targetForNext l = Finite t \<and> 0 < t - minScore l
          \<longrightarrow> scorePercentage s l
                = min 100 (max 0 (100 * of_int (s - minScore l) / of_int (t - minScore l))))"
proof -
  have bounds: "0 \<le> scorePercentage x k \<and> scorePercentage x k \<le> 100" for x k
  proof (cases "targetForNext k")
    case Infinity
    then show ?thesis by (simp add: scorePercentage_def)
  next
    case (Finite t)
    show ?thesis
    proof (cases "0 < t - minScore k")
      case True
      then have "0 \<le> (of_int (max 0 (x - minScore k)) :: rat) / of_int (t - minScore k) * 100"
        by (intro mult_nonneg_nonneg divide_nonneg_pos) simp_all
      with Finite True show ?thesis by (simp add: scorePercentage_def Let_def)
    next
      case False
      with Finite show ?thesis by (simp add: scorePercentage_def Let_def)
    qed
  qed
  have inf: "targetForNext k = Infinity \<longrightarrow> scorePercentage x k = 100" for x k
    by (simp add: scorePercentage_def)
  have top: "3000 \<le> s \<longrightarrow> currentScorePercentage s = 100"
    by (simp add: currentScorePercentage_def getCurrentLevel_eq scorePercentage_def)
  have degen: "\<forall>t. targetForNext l = Finite t \<and> t - minScore l \<le> 0 \<and> minScore l \<le> s
          \<longrightarrow> scorePercentage s l = 100"
    by (simp add: scorePercentage_def Let_def)
  have formula: "\<forall>t. targetForNext l = Finite t \<and> 0 < t - minScore l
          \<longrightarrow> scorePercentage s l
                = min 100 (max 0 (100 * of_int (s - minScore l) / of_int (t - minScore l)))"
  proof (intro allI impI)
    fix t assume h: "targetForNext l = Finite t \<and> 0 < t - minScore l"
    then have pos: "(0::rat) < of_int (t - minScore l)" by simp
    have lhs: "scorePercentage s l
        = min (of_int (max 0 (s - minScore l)) / of_int (t - minScore l) * 100) 100"
      using h by (simp add: scorePercentage_def Let_def)
    show "scorePercentage s l
                = min 100 (max 0 (100 * of_int (s - minScore l) / of_int (t - minScore l)))"
    proof (cases "minScore l \<le> s")
      case True
      then have "(0::rat) \<le> 100 * of_int (s - minScore l) / of_int (t - minScore l)"
        using pos by (intro divide_nonneg_pos mult_nonneg_nonneg) simp_all
      then have "max 0 (100 * of_int (s - minScore l) / of_int (t - minScore l) :: rat)
          = of_int (s - minScore l) / of_int (t - minScore l) * 100"
        by (simp add: max_def)
      moreover from True have "max 0 (s - minScore l) = s - minScore l" by simp
      ultimately show ?thesis unfolding lhs by (simp only: min.commute)
    next
      case False
      then have "(of_int (s - minScore l) :: rat) < 0" by simp
      then have "100 * (of_int (s - minScore l) :: rat) < 0" by simp
      from this pos have "100 * of_int (s - minScore l) / (of_int (t - minScore l) :: rat) < 0"
        by (rule divide_neg_pos)
      then have "max 0 (100 * of_int (s - minScore l) / of_int (t - minScore l) :: rat) = 0"
        by (simp add: max_def)
      moreover from False have "max 0 (s - minScore l) = 0" by simp
      ultimately show ?thesis unfolding lhs by simp
    qed
  qed
  from bounds[of s "getCurrentLevel s"] bounds[of s l] inf[of "getCurrentLevel s" s] inf[of l s]
    top degen formula
  show ?thesis unfolding currentScorePercentage_def by blast
qed

text \<open>
  The spec's two scenarios (80 points: 16 percent; 510 points: 1 percent), a Diamond
  score, a level with an empty range, and a negative score.
\<close>

theorem C8_progress_is_clamped_witness:
  "currentScorePercentage 80 = 16 \<and> currentScorePercentage 510 = 1
   \<and> (3000::int) \<le> 4200 \<and> currentScorePercentage 4200 = 100
   \<and> targetForNext \<lparr>name_level = ''Flat'', minScore = 700, targetForNext = Finite 700\<rparr> = Finite 700
   \<and> (700::int) - 700 \<le> 0 \<and> (700::int) \<le> 900
   \<and> scorePercentage 900 \<lparr>name_level = ''Flat'', minScore = 700, targetForNext = Finite 700\<rparr> = 100
   \<and> 0 \<le> currentScorePercentage (-5) \<and> currentScorePercentage (-5) \<le> 100"
proof -
  have a: "currentScorePercentage 80 = 16" "currentScorePercentage 510 = 1"
    by (simp_all add: currentScorePercentage_def getCurrentLevel_eq
        scorePercentage_def Let_def)
  from C8_progress_is_clamped[of 4200 "\<lparr>name_level = ''Flat'', minScore = 700, targetForNext = Finite 700\<rparr>"]
  have b: "currentScorePercentage 4200 = 100" by simp
  from C8_progress_is_clamped[of 900 "\<lparr>name_level = ''Flat'', minScore = 700, targetForNext = Finite 700\<rparr>"]
  have c: "scorePercentage 900 \<lparr>name_level = ''Flat'', minScore = 700, targetForNext = Finite 700\<rparr> = 100"
    by simp
  from C8_progress_is_clamped[of "-5" "LEVELS ! 0"]
  have d: "0 \<le> currentScorePercentage (-5) \<and> currentScorePercentage (-5) \<le> 100" by simp
  from a b c d show ?thesis by simp
qed

section \<open>C4: the profile after a change of login state\<close>








end
